theory Spec2Isabelle
  imports Complex_Main "HOL-Library.Sublist"
begin

section \<open>Data model\<close>

text \<open>
  A transcript is a Python \<open>str\<close>. It is modelled as a \<open>string\<close> whose characters
  are the code points 0 to 255 (ASCII and the Latin-1 supplement); \<open>of_char\<close> reads
  the code point. Python's \<open>int\<close> is \<open>int\<close>. Python's \<open>float\<close> is modelled by
  the exact rational it denotes (\<open>rat\<close>): every arithmetic step is taken without
  rounding, and NaN and the infinities are not values of the model. \<open>None\<close> is the
  \<open>None\<close> of \<open>option\<close>.
\<close>

text \<open>
  The feedback messages of the scorers. Each constructor stands for one message
  of the source; a message built by an f-string carries the numbers it formats.
  \<^item> \<open>NoSalutation\<close>: "No salutation detected."
  \<^item> \<open>ExcellentSalutation\<close>: "Excellent salutation (excited/feeling great) detected."
  \<^item> \<open>GoodSalutation\<close>: "Good salutation (Good morning/afternoon/evening etc.) detected."
  \<^item> \<open>NormalSalutation\<close>: "Normal salutation (Hi/Hello) detected."
  \<^item> \<open>SectionsMissing\<close>: "Order not clearly followed (some sections missing)."
  \<^item> \<open>OrderFollowed\<close>: "Order followed: Salutation, Basic Details, Additional Details, Closing."
  \<^item> \<open>OrderNotFollowed\<close>: "Order not followed as expected."
  \<^item> \<open>DurationNotProvided\<close>: "Duration not provided - speech rate not scored."
  \<^item> \<open>TooFast\<close>: "Too fast (>161 WPM)."
  \<^item> \<open>Fast\<close>: "Fast (141-160 WPM)."
  \<^item> \<open>Ideal\<close>: "Ideal (111-140 WPM)."
  \<^item> \<open>Slow\<close>: "Slow (81-110 WPM)."
  \<^item> \<open>TooSlow\<close>: "Too slow (<80 WPM)."
  \<^item> \<open>EmptyText\<close>: "Empty text."
  \<^item> \<open>GrammarQuality q n e\<close>: "Grammar quality: q with n errors (~e errors per 100 words)."
  \<^item> \<open>TTRFeedback t d w\<close>: "TTR (type-token ratio) = t (d distinct words out of w)."
  \<^item> \<open>FillerFeedback n r\<close>: "n filler words (~r% of all words)."
  \<^item> \<open>SentimentFeedback p\<close>: "Positive sentiment probability (VADER) = p."
\<close>

datatype feedback =
    NoSalutation | ExcellentSalutation | GoodSalutation | NormalSalutation
  | SectionsMissing | OrderFollowed | OrderNotFollowed
  | DurationNotProvided | TooFast | Fast | Ideal | Slow | TooSlow
  | EmptyText
  | GrammarQuality rat int rat
  | TTRFeedback rat int int
  | FillerFeedback int rat
  | SentimentFeedback rat

text \<open>
  What can stop a call instead of a result: an exception raised inside one of the
  two collaborators (with its message), Python's \<open>KeyError\<close> for a missing
  dictionary key, and the page's refusal of a blank transcript
  (\<open>st.error\<close>, "Please paste a transcript before scoring.").
\<close>

datatype error = Raised string | KeyError string | PleasePasteTranscript

section \<open>Rubric constants\<close>

definition FILLER_WORDS :: "string list" where
  "FILLER_WORDS =
     [''um'', ''uh'', ''like'', ''you know'', ''so'', ''actually'', ''basically'',
      ''right'', ''i mean'', ''well'', ''kinda'', ''sort of'', ''okay'', ''ok'',
      ''hmm'', ''ah'']"

text \<open>
  The regular expressions of the rubric all have the shape
  \<^verbatim>\<open>\bliteral\b\<close>: a pattern is a sequence of word-boundary assertions
  \<open>B\<close> and literal pieces \<open>Lit\<close>.
\<close>

datatype re_item = B | Lit string

type_synonym regex = "re_item list"

definition word_pattern :: "string \<Rightarrow> regex" where
  "word_pattern s = [B, Lit s, B]"

definition MUST_HAVE_PATTERNS :: "(string \<times> regex list) list" where
  "MUST_HAVE_PATTERNS =
     [(''name'', map word_pattern [''my name is'', ''i am'', ''this is'']),
      (''age'', map word_pattern [''years old'', ''year old'', ''age'']),
      (''school_class'', map word_pattern
          [''school'', ''class'', ''grade'', ''college'', ''university'']),
      (''family'', map word_pattern
          [''family'', ''mother'', ''father'', ''parents'', ''sister'', ''brother'']),
      (''hobbies'', map word_pattern
          [''hobby'', ''hobbies'', ''i like to'', ''i love to'', ''in my free time''])]"

definition MUST_HAVE_POINTS :: int where
  "MUST_HAVE_POINTS = 4"

definition GOOD_TO_HAVE_PATTERNS :: "(string \<times> regex list) list" where
  "GOOD_TO_HAVE_PATTERNS =
     [(''about_family'', map word_pattern [''family'', ''mother'', ''father'', ''parents'']),
      (''origin_location'', map word_pattern
          [''i am from'', ''i'' @ [CHR 0x27] @ ''m from'', ''we live in'', ''from'']),
      (''ambition_goal'', map word_pattern
          [''want to'', ''my goal'', ''my dream'', ''aspire'', ''ambition'']),
      (''interesting_fact'', map word_pattern [''fun fact'', ''interesting'', ''unique'']),
      (''strengths_achievements'', map word_pattern
          [''strength'', ''strong in'', ''achievement'', ''won'', ''award''])]"

definition GOOD_TO_HAVE_POINTS :: int where
  "GOOD_TO_HAVE_POINTS = 2"

definition NORMAL_SALUTATIONS :: "string list" where
  "NORMAL_SALUTATIONS = [''hi'', ''hello'']"

definition GOOD_SALUTATIONS :: "string list" where
  "GOOD_SALUTATIONS =
     [''good morning'', ''good afternoon'', ''good evening'',
      ''good day'', ''hello everyone'', ''hi everyone'']"

definition EXCELLENT_PHRASES :: "string list" where
  "EXCELLENT_PHRASES =
     [''i am excited to introduce'', ''feeling great'',
      ''i'' @ [CHR 0x27] @ ''m excited to introduce'', ''i am excited to be here'']"

definition MAX_POINTS :: "(string \<times> int) list" where
  "MAX_POINTS =
     [(''content_structure'', 40), (''speech_rate'', 10),
      (''language_grammar'', 20), (''clarity'', 15), (''engagement'', 15)]"

section \<open>Text utilities\<close>

text \<open>\<open>str.lower()\<close>, \<open>str.isspace()\<close> and the class \<^verbatim>\<open>\w\<close> on code points below 256.\<close>

definition lower_char :: "char \<Rightarrow> char" where
  "lower_char c =
     (let n = (of_char c :: int)
      in if (65 \<le> n \<and> n \<le> 90) \<or> (192 \<le> n \<and> n \<le> 222 \<and> n \<noteq> 215)
         then char_of (n + 32) else c)"

definition str_lower :: "string \<Rightarrow> string" where
  "str_lower s = map lower_char s"

definition is_word_char :: "char \<Rightarrow> bool" where
  "is_word_char c =
     (let n = (of_char c :: int)
      in (48 \<le> n \<and> n \<le> 57) \<or> (65 \<le> n \<and> n \<le> 90) \<or> n = 95 \<or> (97 \<le> n \<and> n \<le> 122)
         \<or> n \<in> {170, 178, 179, 181, 185, 186, 188, 189, 190}
         \<or> (192 \<le> n \<and> n \<noteq> 215 \<and> n \<noteq> 247))"

definition is_space_char :: "char \<Rightarrow> bool" where
  "is_space_char c =
     (let n = (of_char c :: int)
      in (9 \<le> n \<and> n \<le> 13) \<or> (28 \<le> n \<and> n \<le> 32) \<or> n = 133 \<or> n = 160)"

definition str_strip :: "string \<Rightarrow> string" where
  "str_strip s = rev (dropWhile is_space_char (rev (dropWhile is_space_char s)))"

text \<open>
  \<^verbatim>\<open>re.findall(r"\b\w+\b", s)\<close>: the maximal runs of word characters, left to
  right. A match can only start where a run starts, the greedy \<^verbatim>\<open>\w+\<close> takes the
  whole run, and the closing \<^verbatim>\<open>\b\<close> holds at its end.
\<close>

function findall_words :: "string \<Rightarrow> string list" where
  "findall_words [] = []"
| "findall_words (c # cs) =
     (if is_word_char c
      then (c # takeWhile is_word_char cs) # findall_words (dropWhile is_word_char cs)
      else findall_words cs)"
  by pat_completeness auto
termination
  by (relation "measure length") (auto simp: less_Suc_eq_le length_dropWhile_le)

definition tokenize_words :: "string \<Rightarrow> string list" where
  "tokenize_words text = (let text_lower = str_lower text in findall_words text_lower)"

definition compute_word_count :: "string \<Rightarrow> int" where
  "compute_word_count text = int (length (tokenize_words text))"

text \<open>
  \<open>re.search\<close> for the patterns above. \<open>match_here r prev s\<close> matches \<open>r\<close> at the
  start of \<open>s\<close>, where \<open>prev\<close> is the character before that position (\<open>None\<close> at
  the start of the text); \<open>search_from\<close> tries every position, left to right, and stops
  at the first match.
\<close>

definition at_word_boundary :: "char option \<Rightarrow> string \<Rightarrow> bool" where
  "at_word_boundary prev s =
     ((case prev of None \<Rightarrow> False | Some c \<Rightarrow> is_word_char c)
      \<noteq> (case s of [] \<Rightarrow> False | c # _ \<Rightarrow> is_word_char c))"

fun match_here :: "regex \<Rightarrow> char option \<Rightarrow> string \<Rightarrow> bool" where
  "match_here [] prev s = True"
| "match_here (B # r) prev s = (if at_word_boundary prev s then match_here r prev s else False)"
| "match_here (Lit l # r) prev s =
     (if prefix l s
      then match_here r (if l = [] then prev else Some (last l)) (drop (length l) s)
      else False)"

fun search_from :: "regex \<Rightarrow> char option \<Rightarrow> string \<Rightarrow> bool" where
  "search_from r prev [] = match_here r prev []"
| "search_from r prev (c # cs) =
     (if match_here r prev (c # cs) then True else search_from r (Some c) cs)"

definition re_search :: "regex \<Rightarrow> string \<Rightarrow> bool" where
  "re_search pat s = search_from pat None s"

fun find_any_pattern :: "string \<Rightarrow> regex list \<Rightarrow> bool" where
  "find_any_pattern text_lower [] = False"
| "find_any_pattern text_lower (pat # patterns) =
     (if re_search pat text_lower then True else find_any_pattern text_lower patterns)"

text \<open>\<open>p in s\<close> and \<open>s.find(p)\<close> (the first index of \<open>p\<close> in \<open>s\<close>, or \<open>-1\<close>).\<close>

fun str_contains :: "string \<Rightarrow> string \<Rightarrow> bool" where
  "str_contains [] p = (p = [])"
| "str_contains (c # cs) p = (prefix p (c # cs) \<or> str_contains cs p)"

fun find_from :: "string \<Rightarrow> string \<Rightarrow> int \<Rightarrow> int" where
  "find_from p [] i = (if p = [] then i else - 1)"
| "find_from p (c # cs) i = (if prefix p (c # cs) then i else find_from p cs (i + 1))"

definition str_find :: "string \<Rightarrow> string \<Rightarrow> int" where
  "str_find s p = find_from p s 0"

section \<open>Speech rate (0 to 10)\<close>

definition get_speech_rate_score :: "int \<Rightarrow> rat option \<Rightarrow> int option \<times> rat option \<times> feedback" where
  "get_speech_rate_score word_count duration_seconds =
     (case duration_seconds of
        None \<Rightarrow> (None, None, DurationNotProvided)
      | Some d \<Rightarrow>
          if d = 0 \<or> d \<le> 0 then (None, None, DurationNotProvided)
          else
            let wpm = of_int word_count / (d / 60)
            in if wpm > 161 then (Some 2, Some wpm, TooFast)
               else if 141 \<le> wpm \<and> wpm \<le> 160 then (Some 6, Some wpm, Fast)
               else if 111 \<le> wpm \<and> wpm \<le> 140 then (Some 10, Some wpm, Ideal)
               else if 81 \<le> wpm \<and> wpm \<le> 110 then (Some 6, Some wpm, Slow)
               else (Some 2, Some wpm, TooSlow))"

section \<open>Salutation (0 to 5)\<close>

definition get_salutation_score :: "string \<Rightarrow> int \<times> feedback" where
  "get_salutation_score text =
     (let tl' = str_lower text
      in if \<exists>phrase \<in> set EXCELLENT_PHRASES. str_contains tl' phrase
           then (5, ExcellentSalutation)
         else if \<exists>phrase \<in> set GOOD_SALUTATIONS. str_contains tl' phrase
           then (4, GoodSalutation)
         else if \<exists>s \<in> set NORMAL_SALUTATIONS. re_search ([B] @ [Lit s] @ [B]) tl'
           then (2, NormalSalutation)
         else (0, NoSalutation))"

section \<open>Keyword presence (0 to 30)\<close>

definition get_keyword_presence_score ::
  "string \<Rightarrow> int \<times> (string \<times> bool) list \<times> (string \<times> bool) list" where
  "get_keyword_presence_score text =
     (let tl' = str_lower text;
          must_have_present =
            map (\<lambda>(key, patterns). (key, find_any_pattern tl' patterns)) MUST_HAVE_PATTERNS;
          good_to_have_present =
            map (\<lambda>(key, patterns). (key, find_any_pattern tl' patterns)) GOOD_TO_HAVE_PATTERNS;
          must_score = int (length (filter (\<lambda>v. v) (map snd must_have_present))) * MUST_HAVE_POINTS;
          good_score =
            int (length (filter (\<lambda>v. v) (map snd good_to_have_present))) * GOOD_TO_HAVE_POINTS;
          must_score = min must_score 20;
          good_score = min good_score 10;
          total_score = must_score + good_score
      in (total_score, must_have_present, good_to_have_present))"

section \<open>Flow (0 or 5)\<close>

definition first_index_of_any :: "string \<Rightarrow> string list \<Rightarrow> int option" where
  "first_index_of_any tl' phrases =
     (let idxs = filter (\<lambda>pos. pos \<noteq> - 1) (map (\<lambda>p. str_find tl' p) phrases)
      in case idxs of [] \<Rightarrow> None | i # rest \<Rightarrow> Some (fold min rest i))"

definition BASIC_PHRASES :: "string list" where
  "BASIC_PHRASES =
     [''my name is'', ''i am'', ''i'' @ [CHR 0x27] @ ''m'', ''years old'', ''school'',
      ''class'', ''grade'']"

definition ADDITIONAL_PHRASES :: "string list" where
  "ADDITIONAL_PHRASES = [''hobby'', ''hobbies'', ''fun fact'', ''goal'', ''dream'', ''family'']"

definition CLOSING_PHRASES :: "string list" where
  "CLOSING_PHRASES =
     [''thank you'', ''thanks for listening'', ''that'' @ [CHR 0x27] @ ''s all'', ''that is all'']"

definition get_flow_score :: "string \<Rightarrow> int \<times> feedback" where
  "get_flow_score text =
     (let tl' = str_lower text;
          sal_index = first_index_of_any tl' (NORMAL_SALUTATIONS @ GOOD_SALUTATIONS);
          basic_index = first_index_of_any tl' BASIC_PHRASES;
          additional_index = first_index_of_any tl' ADDITIONAL_PHRASES;
          closing_index = first_index_of_any tl' CLOSING_PHRASES
      in case (sal_index, basic_index, additional_index, closing_index) of
           (Some s, Some b, Some a, Some c) \<Rightarrow>
             if s \<le> b \<and> b \<le> a \<and> a \<le> c then (5, OrderFollowed) else (0, OrderNotFollowed)
         | _ \<Rightarrow> (0, SectionsMissing))"

section \<open>Grammar (0 to 10)\<close>

text \<open>
  The grammar collaborator \<open>grammar_tool.check\<close> is a parameter: it returns the
  list of issues it found, or raises.
\<close>

definition get_grammar_score ::
  "(string \<Rightarrow> error + 'm list) \<Rightarrow> string \<Rightarrow> int \<Rightarrow> error + (int \<times> rat \<times> rat \<times> feedback)" where
  "get_grammar_score grammar_tool_check text word_count =
     (if word_count = 0 then Inr (0, 0, 0, EmptyText)
      else case grammar_tool_check text of
             Inl e \<Rightarrow> Inl e
           | Inr matches \<Rightarrow>
               let error_count = int (length matches);
                   errors_per_100 = (of_int error_count / of_int word_count) * 100;
                   grammar_quality = 1 - min (errors_per_100 / 10) 1;
                   score = (if grammar_quality > 9 / 10 then 10
                            else if 7 / 10 \<le> grammar_quality \<and> grammar_quality \<le> 89 / 100 then 8
                            else if 5 / 10 \<le> grammar_quality \<and> grammar_quality \<le> 69 / 100 then 6
                            else if 3 / 10 \<le> grammar_quality \<and> grammar_quality \<le> 49 / 100 then 4
                            else 2);
                   feedback = GrammarQuality grammar_quality error_count errors_per_100
               in Inr (score, of_int error_count, errors_per_100, feedback))"

section \<open>Vocabulary richness (0 to 10)\<close>

definition get_vocabulary_score :: "string \<Rightarrow> int \<times> rat \<times> feedback" where
  "get_vocabulary_score text =
     (let tokens = tokenize_words text;
          word_count = int (length tokens)
      in if word_count = 0 then (0, 0, EmptyText)
         else
           let distinct_count = int (card (set tokens));
               ttr = of_int distinct_count / of_int word_count;
               score = (if 9 / 10 \<le> ttr \<and> ttr \<le> 1 then 10
                        else if 7 / 10 \<le> ttr \<and> ttr \<le> 89 / 100 then 8
                        else if 5 / 10 \<le> ttr \<and> ttr \<le> 69 / 100 then 6
                        else if 3 / 10 \<le> ttr \<and> ttr \<le> 49 / 100 then 4
                        else 2);
               feedback = TTRFeedback ttr distinct_count word_count
           in (score, ttr, feedback))"

section \<open>Clarity (0 to 15)\<close>

text \<open>The loop over the tokens, with the running count.\<close>

fun count_fillers :: "string list \<Rightarrow> int \<Rightarrow> int" where
  "count_fillers [] filler_count = filler_count"
| "count_fillers (t # tokens) filler_count =
     count_fillers tokens (if t \<in> set FILLER_WORDS then filler_count + 1 else filler_count)"

definition get_clarity_score :: "string \<Rightarrow> int \<times> int \<times> rat \<times> feedback" where
  "get_clarity_score text =
     (let tokens = tokenize_words text;
          word_count = int (length tokens)
      in if word_count = 0 then (0, 0, 0, EmptyText)
         else
           let filler_count = count_fillers tokens 0;
               filler_rate = (of_int filler_count / of_int word_count) * 100;
               score = (if 0 \<le> filler_rate \<and> filler_rate \<le> 3 then 15
                        else if 4 \<le> filler_rate \<and> filler_rate \<le> 6 then 12
                        else if 7 \<le> filler_rate \<and> filler_rate \<le> 9 then 9
                        else if 10 \<le> filler_rate \<and> filler_rate \<le> 12 then 6
                        else 3);
               feedback = FillerFeedback filler_count filler_rate
           in (score, filler_count, filler_rate, feedback))"

section \<open>Engagement (0 to 15)\<close>

text \<open>Reading a dictionary at a key: \<open>d[k]\<close> raises \<open>KeyError\<close> when the key is absent.\<close>

definition dict_get :: "(string \<times> 'v) list \<Rightarrow> string \<Rightarrow> error + 'v" where
  "dict_get d k = (case map_of d k of None \<Rightarrow> Inl (KeyError k) | Some v \<Rightarrow> Inr v)"

text \<open>
  The sentiment collaborator \<open>sentiment_analyzer.polarity_scores\<close> is a parameter:
  it returns a dictionary of scores, or raises.
\<close>

definition get_engagement_score ::
  "(string \<Rightarrow> error + (string \<times> rat) list) \<Rightarrow> string \<Rightarrow> error + (int \<times> rat \<times> feedback)" where
  "get_engagement_score polarity_scores text =
     (case polarity_scores text of
        Inl e \<Rightarrow> Inl e
      | Inr scores \<Rightarrow>
          (case dict_get scores ''pos'' of
             Inl e \<Rightarrow> Inl e
           | Inr pos_prob \<Rightarrow>
               let score = (if pos_prob \<ge> 9 / 10 then 15
                            else if 7 / 10 \<le> pos_prob \<and> pos_prob \<le> 89 / 100 then 12
                            else if 5 / 10 \<le> pos_prob \<and> pos_prob \<le> 69 / 100 then 9
                            else if 3 / 10 \<le> pos_prob \<and> pos_prob \<le> 49 / 100 then 6
                            else 3);
                   feedback = SentimentFeedback pos_prob
               in Inr (score, pos_prob, feedback)))"

section \<open>Overall scoring pipeline\<close>

text \<open>
  The result dictionary. A sub-item of a category is one entry of its
  \<open>subcomponents\<close> dictionary, and the constructor names the key; the Speech Rate
  entry has no \<open>subcomponents\<close> and carries \<open>wpm\<close> and \<open>feedback\<close> itself.
\<close>

datatype subcomponent =
    Salutation (score: int) (sub_max_score: int) feedback
  | KeywordPresence (score: int) (sub_max_score: int)
      "(string \<times> bool) list" "(string \<times> bool) list"
  | Flow (score: int) (sub_max_score: int) feedback
  | Grammar (score: int) (sub_max_score: int) rat rat feedback
  | Vocabulary (score: int) (sub_max_score: int) rat feedback
  | FillerWords (score: int) (sub_max_score: int) int rat feedback
  | Sentiment (score: int) (sub_max_score: int) rat feedback

datatype criterion =
    Category (name: string) (final_score: int) (max_score: int) "subcomponent list"
  | SpeechRate (name: string) (final_score: int) (max_score: int) "rat option" feedback

record score_result =
  overall_score :: rat
  word_count :: int
  criteria :: "criterion list"

text \<open>\<open>round(x, n)\<close> on the exact value: to the nearest multiple of \<open>10^-n\<close>, ties to even.\<close>

definition round_half_even :: "rat \<Rightarrow> int" where
  "round_half_even x =
     (let f = \<lfloor>x\<rfloor>; d = x - of_int f
      in if d < 1 / 2 then f else if d > 1 / 2 then f + 1 else if even f then f else f + 1)"

definition py_round :: "rat \<Rightarrow> nat \<Rightarrow> rat" where
  "py_round x n = of_int (round_half_even (x * 10 ^ n)) / 10 ^ n"

definition and_then :: "error + 'a \<Rightarrow> ('a \<Rightarrow> error + 'b) \<Rightarrow> error + 'b" where
  "and_then m f = (case m of Inl e \<Rightarrow> Inl e | Inr x \<Rightarrow> f x)"

definition score_transcript ::
  "(string \<Rightarrow> error + 'm list) \<Rightarrow> (string \<Rightarrow> error + (string \<times> rat) list)
     \<Rightarrow> string \<Rightarrow> rat option \<Rightarrow> error + score_result" where
  "score_transcript grammar_tool_check polarity_scores text duration_seconds =
     (let word_count = compute_word_count text;
          (sal_score, sal_reason) = get_salutation_score text;
          (kw_score, must_have_present, good_to_have_present) = get_keyword_presence_score text;
          (flow_score, flow_reason) = get_flow_score text;
          cs_total = sal_score + kw_score + flow_score;
          (sr_score, wpm, sr_feedback) = get_speech_rate_score word_count duration_seconds;
          sr_total_for_overall = (case sr_score of None \<Rightarrow> 0 | Some s \<Rightarrow> s)
      in and_then (get_grammar_score grammar_tool_check text word_count)
          (\<lambda>(grammar_score, err_count, err_per_100, grammar_fb).
      let (vocab_score, ttr, vocab_fb) = get_vocabulary_score text;
          lg_total = grammar_score + vocab_score;
          (clarity_score, filler_count, filler_rate, clarity_fb) = get_clarity_score text
      in and_then (get_engagement_score polarity_scores text)
          (\<lambda>(engagement_score_val, pos_prob, eng_fb).
      let overall = cs_total + sr_total_for_overall + lg_total + clarity_score
                      + engagement_score_val;
          overall = max 0 (min 100 (of_int overall))
      in and_then (dict_get MAX_POINTS ''content_structure'') (\<lambda>max_cs.
         and_then (dict_get MAX_POINTS ''speech_rate'') (\<lambda>max_sr.
         and_then (dict_get MAX_POINTS ''language_grammar'') (\<lambda>max_lg.
         and_then (dict_get MAX_POINTS ''clarity'') (\<lambda>max_cl.
         and_then (dict_get MAX_POINTS ''engagement'') (\<lambda>max_en.
         Inr \<lparr> overall_score = py_round overall 2,
               word_count = word_count,
               criteria =
                 [Category ''Content & Structure'' cs_total max_cs
                    [Salutation sal_score 5 sal_reason,
                     KeywordPresence kw_score 30 must_have_present good_to_have_present,
                     Flow flow_score 5 flow_reason],
                  SpeechRate ''Speech Rate'' (case sr_score of None \<Rightarrow> 0 | Some s \<Rightarrow> s) max_sr
                    (case wpm of None \<Rightarrow> None | Some w \<Rightarrow> Some (py_round w 2)) sr_feedback,
                  Category ''Language & Grammar'' lg_total max_lg
                    [Grammar grammar_score 10 err_count (py_round err_per_100 2) grammar_fb,
                     Vocabulary vocab_score 10 (if word_count > 0 then py_round ttr 3 else 0)
                       vocab_fb],
                  Category ''Clarity'' clarity_score max_cl
                    [FillerWords clarity_score 15 filler_count (py_round filler_rate 2)
                       clarity_fb],
                  Category ''Engagement'' engagement_score_val max_en
                    [Sentiment engagement_score_val 15 (py_round pos_prob 3) eng_fb]] \<rparr>
         ))))))))"

section \<open>The page's button handler\<close>

text \<open>
  The part of the page that decides whether scoring happens at all. \<open>py_float\<close>
  is Python's \<open>float\<close> on the text of the duration box, \<open>None\<close> where it raises
  \<open>ValueError\<close>. The warning and the rendering of the result are not modelled.
\<close>

definition on_score_button ::
  "(string \<Rightarrow> error + 'm list) \<Rightarrow> (string \<Rightarrow> error + (string \<times> rat) list)
     \<Rightarrow> (string \<Rightarrow> rat option) \<Rightarrow> string \<Rightarrow> string \<Rightarrow> error + score_result" where
  "on_score_button grammar_tool_check polarity_scores py_float transcript duration_input =
     (if str_strip transcript = [] then Inl PleasePasteTranscript
      else
        let duration_seconds =
              (if str_strip duration_input \<noteq> [] then py_float duration_input else None)
        in score_transcript grammar_tool_check polarity_scores transcript duration_seconds)"

section \<open>Earliest positions, stated independently of the code\<close>

text \<open>
  The flow rubric speaks of the earliest character position at which any phrase
  of a group occurs in the text. These two predicates say that directly, without
  reference to \<open>str_find\<close> or \<open>first_index_of_any\<close>: some phrase of the group occurs
  at position \<open>i\<close>, and \<open>i\<close> is the least such position.
\<close>

definition matches_at :: "string \<Rightarrow> string list \<Rightarrow> nat \<Rightarrow> bool" where
  "matches_at s phrases i \<longleftrightarrow> i \<le> length s \<and> (\<exists>p \<in> set phrases. prefix p (drop i s))"

definition earliest_match :: "string \<Rightarrow> string list \<Rightarrow> nat \<Rightarrow> bool" where
  "earliest_match s phrases i \<longleftrightarrow>
     matches_at s phrases i \<and> (\<forall>j < i. \<not> matches_at s phrases j)"

section \<open>Collaborators used at concrete inputs\<close>

text \<open>
  Fixed collaborator behaviours at which the pipeline is evaluated: a grammar
  checker that reports a given number of issues, one that raises, one that
  answers for the transcript \<open>hello\<close> only;
  a sentiment analyzer that finds the text entirely neutral, one that raises, and
  one whose answer has no \<open>pos\<close> entry.
\<close>

definition issues_found :: "nat \<Rightarrow> string \<Rightarrow> error + unit list" where
  "issues_found n text = Inr (replicate n ())"

definition grammar_tool_down :: "string \<Rightarrow> error + unit list" where
  "grammar_tool_down text = Inl (Raised ''LanguageTool server not reachable'')"


definition neutral_sentiment :: "string \<Rightarrow> error + (string \<times> rat) list" where
  "neutral_sentiment text = Inr [(''neg'', 0), (''neu'', 1), (''pos'', 0), (''compound'', 0)]"

definition sentiment_down :: "string \<Rightarrow> error + (string \<times> rat) list" where
  "sentiment_down text = Inl (Raised ''analyzer failed'')"

definition sentiment_malformed :: "string \<Rightarrow> error + (string \<times> rat) list" where
  "sentiment_malformed text = Inr [(''neg'', 0), (''neu'', 1)]"

text \<open>The result of scoring the one-word transcript \<open>hello\<close> with no duration.\<close>

definition hello_result :: score_result where
  "hello_result =
     \<lparr> overall_score = 40, word_count = 1,
       criteria =
         [Category ''Content & Structure'' 2 40
            [Salutation 2 5 NormalSalutation,
             KeywordPresence 0 30
               [(''name'', False), (''age'', False), (''school_class'', False),
                (''family'', False), (''hobbies'', False)]
               [(''about_family'', False), (''origin_location'', False),
                (''ambition_goal'', False), (''interesting_fact'', False),
                (''strengths_achievements'', False)],
             Flow 0 5 SectionsMissing],
          SpeechRate ''Speech Rate'' 0 10 None DurationNotProvided,
          Category ''Language & Grammar'' 20 20
            [Grammar 10 10 0 0 (GrammarQuality 1 0 0), Vocabulary 10 10 1 (TTRFeedback 1 1 1)],
          Category ''Clarity'' 15 15 [FillerWords 15 15 0 0 (FillerFeedback 0 0)],
          Category ''Engagement'' 3 15 [Sentiment 3 15 0 (SentimentFeedback 0)]] \<rparr>"

text \<open>The result of scoring the empty transcript with no duration.\<close>

definition blank_result :: score_result where
  "blank_result =
     \<lparr> overall_score = 3, word_count = 0,
       criteria =
         [Category ''Content & Structure'' 0 40
            [Salutation 0 5 NoSalutation,
             KeywordPresence 0 30
               [(''name'', False), (''age'', False), (''school_class'', False),
                (''family'', False), (''hobbies'', False)]
               [(''about_family'', False), (''origin_location'', False),
                (''ambition_goal'', False), (''interesting_fact'', False),
                (''strengths_achievements'', False)],
             Flow 0 5 SectionsMissing],
          SpeechRate ''Speech Rate'' 0 10 None DurationNotProvided,
          Category ''Language & Grammar'' 0 20
            [Grammar 0 10 0 0 EmptyText, Vocabulary 0 10 0 EmptyText],
          Category ''Clarity'' 0 15 [FillerWords 0 15 0 0 EmptyText],
          Category ''Engagement'' 3 15 [Sentiment 3 15 0 (SentimentFeedback 0)]] \<rparr>"

text \<open>A transcript of 100 words, three of them fillers.\<close>

definition hundred_words :: string where
  "hundred_words = concat (replicate 97 ''go '') @ ''um uh like''"

text \<open>A transcript that mentions every must-have and every good-to-have topic.\<close>

definition all_topics :: string where
  "all_topics =
     ''My name is Al, age 9. School, family, hobby. I am from Pune, want to win. Fun fact: strength.''"

text \<open>Two transcripts with all four sections, in and out of the expected order.\<close>

definition in_order :: string where
  "in_order = ''Hello, my name is Sam. My hobby is chess. Thank you.''"

definition out_of_order :: string where
  "out_of_order = ''My hobby is chess. Hello, I am Sam. Thank you.''"

section \<open>Basic facts about the pipeline\<close>

lemma round_half_even_of_int: "round_half_even (of_int k) = k"
  by (simp add: round_half_even_def)

lemma py_round_of_int: "py_round (of_int k) n = of_int k"
proof -
  have "of_int k * (10::rat) ^ n = of_int (k * 10 ^ n)" by simp
  then have "round_half_even (of_int k * 10 ^ n) = k * 10 ^ n"
    using round_half_even_of_int by presburger
  then show ?thesis by (simp add: py_round_def)
qed

lemma and_then_Inr_iff: "and_then m f = Inr r \<longleftrightarrow> (\<exists>x. m = Inr x \<and> f x = Inr r)"
  by (cases m) (simp_all add: and_then_def)

lemma and_then_Inl_iff:
  "and_then m f = Inl e \<longleftrightarrow> m = Inl e \<or> (\<exists>x. m = Inr x \<and> f x = Inl e)"
  by (cases m) (simp_all add: and_then_def)

lemma max_points_lookup:
  "dict_get MAX_POINTS ''content_structure'' = Inr 40"
  "dict_get MAX_POINTS ''speech_rate'' = Inr 10"
  "dict_get MAX_POINTS ''language_grammar'' = Inr 20"
  "dict_get MAX_POINTS ''clarity'' = Inr 15"
  "dict_get MAX_POINTS ''engagement'' = Inr 15"
  by (simp_all add: dict_get_def MAX_POINTS_def)

text \<open>
  The pipeline with its local bindings read as projections: the two collaborator
  calls decide whether there is a result, and the result is the dictionary below.
\<close>

lemma score_transcript_unfold:
  "score_transcript G S text d =
     and_then (get_grammar_score G text (compute_word_count text)) (\<lambda>g.
     and_then (get_engagement_score S text) (\<lambda>e.
       let sal = get_salutation_score text; kw = get_keyword_presence_score text;
           fl = get_flow_score text; sr = get_speech_rate_score (compute_word_count text) d;
           vo = get_vocabulary_score text; cl = get_clarity_score text;
           srs = (case fst sr of None \<Rightarrow> 0 | Some s \<Rightarrow> s)
       in Inr \<lparr> overall_score =
                  py_round (max 0 (min 100 (of_int (fst sal + fst kw + fst fl + srs
                     + (fst g + fst vo) + fst cl + fst e)))) 2,
                word_count = compute_word_count text,
                criteria =
                  [Category ''Content & Structure'' (fst sal + fst kw + fst fl) 40
                     [Salutation (fst sal) 5 (snd sal),
                      KeywordPresence (fst kw) 30 (fst (snd kw)) (snd (snd kw)),
                      Flow (fst fl) 5 (snd fl)],
                   SpeechRate ''Speech Rate'' srs 10
                     (case fst (snd sr) of None \<Rightarrow> None | Some w \<Rightarrow> Some (py_round w 2))
                     (snd (snd sr)),
                   Category ''Language & Grammar'' (fst g + fst vo) 20
                     [Grammar (fst g) 10 (fst (snd g)) (py_round (fst (snd (snd g))) 2)
                        (snd (snd (snd g))),
                      Vocabulary (fst vo) 10
                        (if compute_word_count text > 0 then py_round (fst (snd vo)) 3 else 0)
                        (snd (snd vo))],
                   Category ''Clarity'' (fst cl) 15
                     [FillerWords (fst cl) 15 (fst (snd cl)) (py_round (fst (snd (snd cl))) 2)
                        (snd (snd (snd cl)))],
                   Category ''Engagement'' (fst e) 15
                     [Sentiment (fst e) 15 (py_round (fst (snd e)) 3) (snd (snd e))]] \<rparr>))"
  unfolding score_transcript_def max_points_lookup
  by (simp add: Let_def and_then_def split: prod.splits sum.splits)

lemma score_hello:
  "score_transcript (issues_found 0) neutral_sentiment ''hello'' None = Inr hello_result"
  by code_simp

section \<open>Speech rate\<close>








section \<open>Ranges of the sub-scores\<close>

lemma salutation_range: "fst (get_salutation_score t) \<in> {0, 2, 4, 5}"
  by (simp add: get_salutation_score_def Let_def)

lemma keyword_range:
  "0 \<le> fst (get_keyword_presence_score t) \<and> fst (get_keyword_presence_score t) \<le> 30"
  by (simp add: get_keyword_presence_score_def Let_def MUST_HAVE_POINTS_def GOOD_TO_HAVE_POINTS_def)

lemma flow_range: "fst (get_flow_score t) \<in> {0, 5}"
  by (simp add: get_flow_score_def Let_def split: option.splits)

lemma speech_range:
  "(case fst (get_speech_rate_score wc d) of None \<Rightarrow> 0 | Some s \<Rightarrow> s) \<in> {0, 2, 6, 10}"
  by (simp add: get_speech_rate_score_def Let_def split: option.splits)

lemma grammar_range: "get_grammar_score G t wc = Inr g \<Longrightarrow> fst g \<in> {0, 2, 4, 6, 8, 10}"
  by (auto simp: get_grammar_score_def Let_def split: if_splits sum.splits)

lemma vocabulary_range: "fst (get_vocabulary_score t) \<in> {0, 2, 4, 6, 8, 10}"
  by (simp add: get_vocabulary_score_def Let_def)

lemma clarity_range: "fst (get_clarity_score t) \<in> {0, 3, 6, 9, 12, 15}"
  by (simp add: get_clarity_score_def Let_def)

lemma engagement_range: "get_engagement_score S t = Inr e \<Longrightarrow> fst e \<in> {3, 6, 9, 12, 15}"
  by (auto simp: get_engagement_score_def Let_def split: if_splits sum.splits)

lemma grammar_returns:
  "get_grammar_score G t wc = Inl e \<longleftrightarrow> wc \<noteq> 0 \<and> G t = Inl e"
  by (auto simp: get_grammar_score_def Let_def split: sum.splits)

lemma engagement_returns:
  "get_engagement_score S t = Inl e \<longleftrightarrow>
     S t = Inl e \<or> (\<exists>sc. S t = Inr sc \<and> map_of sc ''pos'' = None \<and> e = KeyError ''pos'')"
  by (auto simp: get_engagement_score_def dict_get_def Let_def split: sum.splits option.splits)

lemma score_transcript_Inl_iff:
  "score_transcript G S t d = Inl e \<longleftrightarrow>
     get_grammar_score G t (compute_word_count t) = Inl e
     \<or> ((\<exists>g. get_grammar_score G t (compute_word_count t) = Inr g)
         \<and> get_engagement_score S t = Inl e)"
  unfolding score_transcript_unfold and_then_Inl_iff by (auto simp: Let_def)

section \<open>Grammar\<close>

text \<open>
  Claim C10. Whenever the computed grammar quality
  \<open>1 - min (errors_per_100 / 10) 1\<close> falls in a gap between the bands (above 0.89
  and at most 0.9, strictly between 0.69 and 0.7, or strictly between 0.49 and
  0.5), \<open>get_grammar_score\<close> matches no listed band and returns the lowest score
  2. Exactly one error per 100 words gives quality 0.9, which lies in the first
  gap.
\<close>

theorem grammar_gap_scores_two:
  "wc \<noteq> 0 \<Longrightarrow> G t = Inr matches \<Longrightarrow>
   q = 1 - min ((of_int (int (length matches)) / of_int wc * 100) / 10) 1 \<Longrightarrow>
   ((89 / 100 < q \<and> q \<le> 9 / 10) \<or> (69 / 100 < q \<and> q < 7 / 10) \<or> (49 / 100 < q \<and> q < 5 / 10)
      \<longrightarrow> get_grammar_score G t wc
           = Inr (2, of_int (int (length matches)),
                  of_int (int (length matches)) / of_int wc * 100,
                  GrammarQuality q (int (length matches))
                    (of_int (int (length matches)) / of_int wc * 100)))
   \<and> (int (length matches) * 100 = wc \<longrightarrow> q = 9 / 10)"
  apply (rule conjI)
   apply (auto simp: get_grammar_score_def Let_def)[1]
  apply (auto simp: field_simps)
  done

theorem grammar_gap_scores_two_witness:
  "get_grammar_score (issues_found 1) ''one slip here'' 100
     = Inr (2, 1, 1, GrammarQuality (9 / 10) 1 1)
   \<and> get_grammar_score (issues_found 61) ''many slips'' 2000
     = Inr (2, 61, 61 / 20, GrammarQuality (139 / 200) 61 (61 / 20))
   \<and> get_grammar_score (issues_found 101) ''many slips'' 2000
     = Inr (2, 101, 101 / 20, GrammarQuality (99 / 200) 101 (101 / 20))"
  using grammar_gap_scores_two [of 100 "issues_found 1" "''one slip here''" "replicate 1 ()" "9 / 10"]
    grammar_gap_scores_two [of 2000 "issues_found 61" "''many slips''" "replicate 61 ()" "139 / 200"]
    grammar_gap_scores_two [of 2000 "issues_found 101" "''many slips''" "replicate 101 ()" "99 / 200"]
  by (simp add: issues_found_def)

section \<open>Determinism\<close>





section \<open>Collaborator failures\<close>

lemma score_transcript_returns:
  "(\<exists>r. score_transcript G S t d = Inr r) \<longleftrightarrow>
     (compute_word_count t = 0 \<or> (\<exists>ms. G t = Inr ms))
     \<and> (\<exists>sc p. S t = Inr sc \<and> map_of sc ''pos'' = Some p)"
proof -
  have "(\<exists>r. score_transcript G S t d = Inr r) \<longleftrightarrow> (\<forall>e. score_transcript G S t d \<noteq> Inl e)"
    by (cases "score_transcript G S t d") auto
  also have "\<dots> \<longleftrightarrow> (\<forall>e. get_grammar_score G t (compute_word_count t) \<noteq> Inl e)
      \<and> (\<forall>e. get_engagement_score S t \<noteq> Inl e)"
    unfolding score_transcript_Inl_iff
    by (cases "get_grammar_score G t (compute_word_count t)") auto
  also have "\<dots> \<longleftrightarrow> (compute_word_count t = 0 \<or> (\<exists>ms. G t = Inr ms))
     \<and> (\<exists>sc p. S t = Inr sc \<and> map_of sc ''pos'' = Some p)"
    unfolding grammar_returns engagement_returns
    by (cases "G t"; cases "S t") auto
  finally show ?thesis .
qed

text \<open>
  Claim C4 says that a failing collaborator never stops the pipeline: the
  sub-score fails closed, the result is flagged as degraded and a result is still
  returned. \<open>score_transcript\<close> has no handler around either collaborator call
  and its result has no such flag: with a grammar checker that raises, the
  one-word transcript \<open>hello\<close> yields the exception and no result.
\<close>

theorem collaborator_failure_counterexample:
  "score_transcript grammar_tool_down neutral_sentiment ''hello'' None
     = Inl (Raised ''LanguageTool server not reachable'')"
  by code_simp

text \<open>
  Claim C4, amended. An exception of the grammar collaborator on a transcript
  with at least one word, an exception of the sentiment collaborator, and a
  sentiment answer without the key \<open>pos\<close> (a \<open>KeyError\<close>) each leave
  \<open>score_transcript\<close> as that exception, the grammar collaborator's first, and no
  result is returned. A result is returned exactly when the grammar collaborator
  answers (or is not consulted, the word count being 0) and the sentiment
  collaborator answers with a \<open>pos\<close> entry.
\<close>

theorem collaborator_failure_propagates:
  "(compute_word_count t \<noteq> 0 \<and> G t = Inl e \<longrightarrow> score_transcript G S t d = Inl e)
   \<and> ((compute_word_count t = 0 \<or> (\<exists>ms. G t = Inr ms)) \<and> S t = Inl e
        \<longrightarrow> score_transcript G S t d = Inl e)
   \<and> ((compute_word_count t = 0 \<or> (\<exists>ms. G t = Inr ms))
        \<and> (\<exists>sc. S t = Inr sc \<and> map_of sc ''pos'' = None)
        \<longrightarrow> score_transcript G S t d = Inl (KeyError ''pos''))
   \<and> ((\<exists>r. score_transcript G S t d = Inr r) \<longleftrightarrow>
        (compute_word_count t = 0 \<or> (\<exists>ms. G t = Inr ms))
        \<and> (\<exists>sc p. S t = Inr sc \<and> map_of sc ''pos'' = Some p))"
proof -
  have g: "(\<exists>g. get_grammar_score G t (compute_word_count t) = Inr g) \<longleftrightarrow>
      compute_word_count t = 0 \<or> (\<exists>ms. G t = Inr ms)"
    by (auto simp: get_grammar_score_def Let_def split: sum.splits)
  show ?thesis
    unfolding score_transcript_returns score_transcript_Inl_iff g grammar_returns
      engagement_returns
    by auto
qed

theorem collaborator_failure_propagates_witness:
  "score_transcript grammar_tool_down neutral_sentiment ''hello'' None
     = Inl (Raised ''LanguageTool server not reachable'')
   \<and> score_transcript (issues_found 0) sentiment_down ''hello'' None
     = Inl (Raised ''analyzer failed'')
   \<and> score_transcript (issues_found 0) sentiment_malformed ''hello'' None
     = Inl (KeyError ''pos'')
   \<and> (\<exists>r. score_transcript grammar_tool_down neutral_sentiment '''' None = Inr r)"
proof -
  have wc: "compute_word_count ''hello'' \<noteq> 0" "compute_word_count '''' = 0"
    by code_simp+
  have "score_transcript grammar_tool_down neutral_sentiment ''hello'' None
     = Inl (Raised ''LanguageTool server not reachable'')"
    using collaborator_failure_propagates
      [of "''hello''" grammar_tool_down "Raised ''LanguageTool server not reachable''"
        neutral_sentiment None] wc
    by (simp add: grammar_tool_down_def)
  moreover have "score_transcript (issues_found 0) sentiment_down ''hello'' None
     = Inl (Raised ''analyzer failed'')"
    using collaborator_failure_propagates
      [of "''hello''" "issues_found 0" "Raised ''analyzer failed''" sentiment_down None]
    by (simp add: issues_found_def sentiment_down_def)
  moreover have "score_transcript (issues_found 0) sentiment_malformed ''hello'' None
     = Inl (KeyError ''pos'')"
    using collaborator_failure_propagates
      [of "''hello''" "issues_found 0" "KeyError ''pos''" sentiment_malformed None]
    by (simp add: issues_found_def sentiment_malformed_def)
  moreover have "\<exists>r. score_transcript grammar_tool_down neutral_sentiment '''' None = Inr r"
    using collaborator_failure_propagates
      [of "''''" grammar_tool_down "KeyError ''pos''" neutral_sentiment None] wc
    by (simp add: neutral_sentiment_def)
  ultimately show ?thesis by blast
qed

section \<open>Totals of the result\<close>

lemma overall_in_range:
  "0 \<le> x \<Longrightarrow> x \<le> 100 \<Longrightarrow> py_round (max 0 (min 100 (of_int x))) 2 = of_int x"
proof -
  assume "0 \<le> x" "x \<le> 100"
  then have "max 0 (min 100 (of_int x :: rat)) = of_int x" by simp
  then show ?thesis by (simp only: py_round_of_int)
qed

lemma score_transcript_result_facts:
  assumes a: "score_transcript G S t d = Inr r"
  shows "map name (criteria r)
          = [''Content & Structure'', ''Speech Rate'', ''Language & Grammar'', ''Clarity'',
             ''Engagement'']
        \<and> map max_score (criteria r) = [40, 10, 20, 15, 15]
        \<and> (\<forall>c \<in> set (criteria r). final_score c \<le> max_score c)
        \<and> (\<forall>n f m subs. Category n f m subs \<in> set (criteria r)
              \<longrightarrow> f = sum_list (map score subs))
        \<and> (\<forall>n f m w fb. SpeechRate n f m w fb \<in> set (criteria r)
              \<longrightarrow> f = (case fst (get_speech_rate_score (compute_word_count t) d) of
                         None \<Rightarrow> 0 | Some s \<Rightarrow> s))
        \<and> overall_score r
            = py_round (max 0 (min 100 (of_int (sum_list (map final_score (criteria r)))))) 2
        \<and> overall_score r = of_int (sum_list (map final_score (criteria r)))
        \<and> 0 \<le> overall_score r \<and> overall_score r \<le> 100"
proof -
  from a obtain g e where g: "get_grammar_score G t (compute_word_count t) = Inr g"
    and e: "get_engagement_score S t = Inr e"
    unfolding score_transcript_unfold and_then_Inr_iff by blast
  note r = a [unfolded score_transcript_unfold g e and_then_def, simplified Let_def, simplified,
      symmetric]
  have sal: "0 \<le> fst (get_salutation_score t)" "fst (get_salutation_score t) \<le> 5"
    using salutation_range [of t] by auto
  have kw: "0 \<le> fst (get_keyword_presence_score t)" "fst (get_keyword_presence_score t) \<le> 30"
    using keyword_range [of t] by auto
  have fl: "0 \<le> fst (get_flow_score t)" "fst (get_flow_score t) \<le> 5"
    using flow_range [of t] by auto
  have sr: "0 \<le> (case fst (get_speech_rate_score (compute_word_count t) d) of
                    None \<Rightarrow> 0 | Some s \<Rightarrow> s)"
      "(case fst (get_speech_rate_score (compute_word_count t) d) of
                    None \<Rightarrow> 0 | Some s \<Rightarrow> s) \<le> 10"
    using speech_range [of "compute_word_count t" d] by auto
  have gr: "0 \<le> fst g" "fst g \<le> 10" using grammar_range [OF g] by auto
  have vo: "0 \<le> fst (get_vocabulary_score t)" "fst (get_vocabulary_score t) \<le> 10"
    using vocabulary_range [of t] by auto
  have cl: "0 \<le> fst (get_clarity_score t)" "fst (get_clarity_score t) \<le> 15"
    using clarity_range [of t] by auto
  have en: "0 \<le> fst e" "fst e \<le> 15" using engagement_range [OF e] by auto
  have names: "map name (criteria r)
          = [''Content & Structure'', ''Speech Rate'', ''Language & Grammar'', ''Clarity'',
             ''Engagement'']"
    unfolding r by simp
  have maxima: "map max_score (criteria r) = [40, 10, 20, 15, 15]"
    unfolding r by simp
  have below: "\<forall>c \<in> set (criteria r). final_score c \<le> max_score c"
    unfolding r using sal kw fl sr gr vo cl en by simp
  have subs: "\<forall>n f m subs. Category n f m subs \<in> set (criteria r)
              \<longrightarrow> f = sum_list (map score subs)"
    unfolding r by auto
  have speech: "\<forall>n f m w fb. SpeechRate n f m w fb \<in> set (criteria r)
              \<longrightarrow> f = (case fst (get_speech_rate_score (compute_word_count t) d) of
                         None \<Rightarrow> 0 | Some s \<Rightarrow> s)"
    unfolding r by auto
  have total: "sum_list (map final_score (criteria r))
      = fst (get_salutation_score t) + fst (get_keyword_presence_score t) + fst (get_flow_score t)
        + (case fst (get_speech_rate_score (compute_word_count t) d) of
             None \<Rightarrow> 0 | Some s \<Rightarrow> s)
        + (fst g + fst (get_vocabulary_score t)) + fst (get_clarity_score t) + fst e"
    unfolding r by simp
  have bounds: "0 \<le> sum_list (map final_score (criteria r))"
    "sum_list (map final_score (criteria r)) \<le> 100"
    unfolding total using sal kw fl sr gr vo cl en by linarith+
  have ov: "overall_score r
      = py_round (max 0 (min 100 (of_int (sum_list (map final_score (criteria r)))))) 2"
    unfolding total unfolding r by simp
  have ov2: "overall_score r = of_int (sum_list (map final_score (criteria r)))"
    using ov overall_in_range [OF bounds] by simp
  have ov3: "0 \<le> overall_score r" "overall_score r \<le> 100"
    unfolding ov2 using bounds by simp_all
  show ?thesis
    using names maxima below subs speech ov ov2 ov3 by blast
qed

text \<open>
  Claim C1. For every transcript and every optional duration, whenever the
  collaborators answer, \<open>score_transcript\<close> returns a result, and in every result
  it returns: the five categories carry the declared maxima 40, 10, 20, 15, 15;
  no category's final score exceeds its maximum; the final score of each category
  with sub-items is the sum of their scores; the final score of Speech Rate,
  which has no sub-items, is the score of \<open>get_speech_rate_score\<close>, or 0 when that
  is \<open>None\<close>; and the overall score is the sum of the five final scores, clamped
  to the range 0 to 100 and rounded to 2 decimals (both leave the sum unchanged).
\<close>

theorem score_transcript_invariants:
  "((compute_word_count t = 0 \<or> (\<exists>ms. G t = Inr ms))
      \<and> (\<exists>sc p. S t = Inr sc \<and> map_of sc ''pos'' = Some p)
      \<longrightarrow> (\<exists>r. score_transcript G S t d = Inr r))
   \<and> (\<forall>r. score_transcript G S t d = Inr r \<longrightarrow>
        map name (criteria r)
          = [''Content & Structure'', ''Speech Rate'', ''Language & Grammar'', ''Clarity'',
             ''Engagement'']
        \<and> map max_score (criteria r) = [40, 10, 20, 15, 15]
        \<and> (\<forall>c \<in> set (criteria r). final_score c \<le> max_score c)
        \<and> (\<forall>n f m subs. Category n f m subs \<in> set (criteria r)
              \<longrightarrow> f = sum_list (map score subs))
        \<and> (\<forall>n f m w fb. SpeechRate n f m w fb \<in> set (criteria r)
              \<longrightarrow> f = (case fst (get_speech_rate_score (compute_word_count t) d) of
                         None \<Rightarrow> 0 | Some s \<Rightarrow> s))
        \<and> overall_score r
            = py_round (max 0 (min 100 (of_int (sum_list (map final_score (criteria r)))))) 2
        \<and> overall_score r = of_int (sum_list (map final_score (criteria r)))
        \<and> 0 \<le> overall_score r \<and> overall_score r \<le> 100)"
proof (rule conjI)
  show "(compute_word_count t = 0 \<or> (\<exists>ms. G t = Inr ms))
      \<and> (\<exists>sc p. S t = Inr sc \<and> map_of sc ''pos'' = Some p)
      \<longrightarrow> (\<exists>r. score_transcript G S t d = Inr r)"
    unfolding score_transcript_returns by (rule impI)
qed (intro allI impI, rule score_transcript_result_facts)

theorem score_transcript_invariants_witness:
  "score_transcript (issues_found 0) neutral_sentiment ''hello'' None = Inr hello_result
   \<and> map max_score (criteria hello_result) = [40, 10, 20, 15, 15]
   \<and> map final_score (criteria hello_result) = [2, 0, 20, 15, 3]
   \<and> overall_score hello_result = of_int (sum_list (map final_score (criteria hello_result)))
   \<and> overall_score hello_result = 40"
proof -
  have h: "score_transcript (issues_found 0) neutral_sentiment ''hello'' None = Inr hello_result"
    by (rule score_hello)
  have f: "map final_score (criteria hello_result) = [2, 0, 20, 15, 3]"
    by (simp add: hello_result_def)
  from score_transcript_invariants [of "''hello''" "issues_found 0" neutral_sentiment None] h
  have "map max_score (criteria hello_result) = [40, 10, 20, 15, 15]
    \<and> overall_score hello_result = of_int (sum_list (map final_score (criteria hello_result)))"
    by blast
  with h f show ?thesis by simp
qed

section \<open>Blank transcripts\<close>

lemma dropWhile_all_iff: "(\<forall>x \<in> set (dropWhile P xs). P x) \<longleftrightarrow> (\<forall>x \<in> set xs. P x)"
proof (induction xs)
  case Nil
  show ?case by simp
next
  case (Cons a xs)
  then show ?case by auto
qed

lemma str_strip_empty_iff: "str_strip s = [] \<longleftrightarrow> (\<forall>c \<in> set s. is_space_char c)"
proof -
  have "str_strip s = [] \<longleftrightarrow> (\<forall>c \<in> set (dropWhile is_space_char s). is_space_char c)"
    by (simp add: str_strip_def dropWhile_eq_Nil_conv)
  then show ?thesis by (simp only: dropWhile_all_iff)
qed

lemma space_is_not_word: "is_space_char c \<Longrightarrow> lower_char c = c \<and> \<not> is_word_char c"
  by (auto simp: is_space_char_def lower_char_def is_word_char_def Let_def)

lemma space_lower_is_not_word: "is_space_char c \<Longrightarrow> \<not> is_word_char (lower_char c)"
  using space_is_not_word [of c] by simp

lemma findall_words_no_word: "\<forall>c \<in> set s. \<not> is_word_char c \<Longrightarrow> findall_words s = []"
  by (induction s) auto

lemma blank_has_no_words: "str_strip t = [] \<Longrightarrow> compute_word_count t = 0"
proof -
  assume "str_strip t = []"
  then have "\<forall>c \<in> set t. is_space_char c" by (simp only: str_strip_empty_iff)
  then have "\<forall>c \<in> set (str_lower t). \<not> is_word_char c"
    by (simp add: str_lower_def space_lower_is_not_word)
  then have "findall_words (str_lower t) = []" by (rule findall_words_no_word)
  then show ?thesis by (simp add: compute_word_count_def tokenize_words_def)
qed

text \<open>
  Claim C2 says that the scoring entry point refuses an empty or whitespace-only
  transcript and produces no result. \<open>score_transcript\<close> has no such check: on the
  empty transcript it returns a result, with overall score 3.
\<close>

theorem blank_transcript_counterexample:
  "score_transcript (issues_found 0) neutral_sentiment '''' None = Inr blank_result"
  by code_simp

text \<open>
  Claim C2, amended. The refusal is made by the page's button handler, not by
  \<open>score_transcript\<close>: for every transcript that is empty after \<open>strip()\<close> the
  handler shows its error and produces no result, without calling
  \<open>score_transcript\<close>, which on the same transcript would return a result with
  word count 0 whenever the sentiment collaborator answers. For every other
  transcript the handler returns what \<open>score_transcript\<close> returns.
\<close>

theorem blank_transcript_refused_by_page:
  "(str_strip transcript = [] \<longrightarrow>
      on_score_button G S py_float transcript duration_input = Inl PleasePasteTranscript
      \<and> ((\<exists>sc p. S transcript = Inr sc \<and> map_of sc ''pos'' = Some p) \<longrightarrow>
           (\<exists>r. score_transcript G S transcript d = Inr r \<and> word_count r = 0)))
   \<and> (str_strip transcript \<noteq> [] \<longrightarrow>
        on_score_button G S py_float transcript duration_input
          = score_transcript G S transcript
              (if str_strip duration_input \<noteq> [] then py_float duration_input else None))"
proof (intro conjI impI)
  assume blank: "str_strip transcript = []"
  then show "on_score_button G S py_float transcript duration_input = Inl PleasePasteTranscript"
    by (simp add: on_score_button_def)
  assume "\<exists>sc p. S transcript = Inr sc \<and> map_of sc ''pos'' = Some p"
  with blank_has_no_words [OF blank]
  obtain r where r: "score_transcript G S transcript d = Inr r"
    using score_transcript_returns [of G S transcript d] by blast
  then have "word_count r = compute_word_count transcript"
    unfolding score_transcript_unfold and_then_Inr_iff by (auto simp: Let_def)
  with r blank_has_no_words [OF blank]
  show "\<exists>r. score_transcript G S transcript d = Inr r \<and> word_count r = 0" by simp
next
  assume "str_strip transcript \<noteq> []"
  then show "on_score_button G S py_float transcript duration_input
          = score_transcript G S transcript
              (if str_strip duration_input \<noteq> [] then py_float duration_input else None)"
    by (simp add: on_score_button_def)
qed

theorem blank_transcript_refused_by_page_witness:
  "on_score_button (issues_found 0) neutral_sentiment Map.empty ''  '' [] = Inl PleasePasteTranscript
   \<and> (\<exists>r. score_transcript (issues_found 0) neutral_sentiment ''  '' None = Inr r
          \<and> word_count r = 0)
   \<and> on_score_button (issues_found 0) neutral_sentiment Map.empty ''hello'' []
       = Inr hello_result"
proof -
  have blank: "str_strip ''  '' = []" and nonblank: "str_strip ''hello'' \<noteq> []"
    and nodur: "str_strip [] = []"
    by code_simp+
  have "on_score_button (issues_found 0) neutral_sentiment Map.empty ''  '' []
          = Inl PleasePasteTranscript
        \<and> (\<exists>r. score_transcript (issues_found 0) neutral_sentiment ''  '' None = Inr r
              \<and> word_count r = 0)"
    using blank_transcript_refused_by_page
      [of "''  ''" "issues_found 0" neutral_sentiment Map.empty "[]" None] blank
    by (simp add: neutral_sentiment_def)
  moreover have "on_score_button (issues_found 0) neutral_sentiment Map.empty ''hello'' []
       = Inr hello_result"
    using blank_transcript_refused_by_page
      [of "''hello''" "issues_found 0" neutral_sentiment Map.empty "[]" None] nonblank nodur
      score_hello
    by simp
  ultimately show ?thesis by blast
qed

section \<open>Clarity\<close>

lemma count_fillers_eq:
  "count_fillers ts n = n + int (length (filter (\<lambda>t. t \<in> set FILLER_WORDS) ts))"
  by (induction ts arbitrary: n) simp_all

lemma findall_words_chars:
  "t \<in> set (findall_words s) \<Longrightarrow> t \<noteq> [] \<and> (\<forall>c \<in> set t. is_word_char c)"
proof (induction s arbitrary: t rule: findall_words.induct)
  case 1
  then show ?case by simp
next
  case (2 c cs)
  show ?case
  proof (cases "is_word_char c")
    case True
    with "2.prems" have "t = c # takeWhile is_word_char cs
        \<or> t \<in> set (findall_words (dropWhile is_word_char cs))"
      by simp
    then show ?thesis
    proof
      assume "t = c # takeWhile is_word_char cs"
      with True show ?thesis by (auto dest: set_takeWhileD)
    next
      assume "t \<in> set (findall_words (dropWhile is_word_char cs))"
      with True "2.IH"(1) show ?thesis by blast
    qed
  next
    case False
    with "2.prems" "2.IH"(2) show ?thesis by simp
  qed
qed

lemma space_is_no_word_char: "\<not> is_word_char (CHR '' '')"
  by (simp add: is_word_char_def)

lemma token_has_no_space: "t \<in> set (tokenize_words text) \<Longrightarrow> CHR '' '' \<notin> set t"
  using findall_words_chars [of t "str_lower text"] space_is_no_word_char
  by (auto simp: tokenize_words_def)

lemma not_multi_word:
  assumes "CHR '' '' \<notin> set t"
  shows "(t = ''you know'') = False" "(t = ''i mean'') = False" "(t = ''sort of'') = False"
proof -
  have "t \<noteq> ''you know''"
  proof
    assume "t = ''you know''"
    then have "CHR '' '' \<in> set t" by simp
    with assms show False by (rule notE)
  qed
  then show "(t = ''you know'') = False" by (rule eq_False [THEN iffD2])
  have "t \<noteq> ''i mean''"
  proof
    assume "t = ''i mean''"
    then have "CHR '' '' \<in> set t" by simp
    with assms show False by (rule notE)
  qed
  then show "(t = ''i mean'') = False" by (rule eq_False [THEN iffD2])
  have "t \<noteq> ''sort of''"
  proof
    assume "t = ''sort of''"
    then have "CHR '' '' \<in> set t" by simp
    with assms show False by (rule notE)
  qed
  then show "(t = ''sort of'') = False" by (rule eq_False [THEN iffD2])
qed

lemma filler_single_words:
  assumes "CHR '' '' \<notin> set t"
  shows "t \<in> set FILLER_WORDS \<longleftrightarrow>
     t \<in> set [''um'', ''uh'', ''like'', ''so'', ''actually'', ''basically'', ''right'', ''well'',
              ''kinda'', ''okay'', ''ok'', ''hmm'', ''ah'']"
  by (simp only: FILLER_WORDS_def list.set insert_iff empty_iff not_multi_word [OF assms]
      simp_thms)

lemma clarity_bands:
  "tokenize_words text \<noteq> [] \<Longrightarrow>
   fc = int (length (filter (\<lambda>t. t \<in> set FILLER_WORDS) (tokenize_words text))) \<Longrightarrow>
   rate = of_int fc / of_int (int (length (tokenize_words text))) * 100 \<Longrightarrow>
   \<exists>sc. get_clarity_score text = (sc, fc, rate, FillerFeedback fc rate)
      \<and> (0 \<le> rate \<and> rate \<le> 3 \<longrightarrow> sc = 15)
      \<and> (4 \<le> rate \<and> rate \<le> 6 \<longrightarrow> sc = 12)
      \<and> (7 \<le> rate \<and> rate \<le> 9 \<longrightarrow> sc = 9)
      \<and> (10 \<le> rate \<and> rate \<le> 12 \<longrightarrow> sc = 6)
      \<and> (13 \<le> rate \<longrightarrow> sc = 3)"
  by (simp add: get_clarity_score_def Let_def count_fillers_eq)

text \<open>
  Claim C7. With \<open>fc\<close> the number of tokens that are members of the filler set
  and \<open>rate = fc / word count * 100\<close>: a transcript with no token scores 0; one
  with at least one token gets \<open>fc\<close> and \<open>rate\<close> as its measurements and the score
  15 for a rate from 0 to 3, 12 from 4 to 6, 9 from 7 to 9, 6 from 10 to 12 and 3
  from 13 on. Only the thirteen single-word entries of the filler set are ever
  counted: no token equals "you know", "i mean" or "sort of". With exactly 3
  fillers among 100 tokens the rate is 3 and the score 15.
\<close>

theorem clarity_score_spec:
  assumes fc: "fc = int (length (filter (\<lambda>t. t \<in> set FILLER_WORDS) (tokenize_words text)))"
    and rate: "rate = of_int fc / of_int (int (length (tokenize_words text))) * 100"
  shows "(tokenize_words text = [] \<longrightarrow> get_clarity_score text = (0, 0, 0, EmptyText))
   \<and> (tokenize_words text \<noteq> [] \<longrightarrow>
        (\<exists>sc. get_clarity_score text = (sc, fc, rate, FillerFeedback fc rate)
           \<and> (0 \<le> rate \<and> rate \<le> 3 \<longrightarrow> sc = 15)
           \<and> (4 \<le> rate \<and> rate \<le> 6 \<longrightarrow> sc = 12)
           \<and> (7 \<le> rate \<and> rate \<le> 9 \<longrightarrow> sc = 9)
           \<and> (10 \<le> rate \<and> rate \<le> 12 \<longrightarrow> sc = 6)
           \<and> (13 \<le> rate \<longrightarrow> sc = 3)))
   \<and> fc = int (length (filter
        (\<lambda>t. t \<in> set [''um'', ''uh'', ''like'', ''so'', ''actually'', ''basically'', ''right'',
                       ''well'', ''kinda'', ''okay'', ''ok'', ''hmm'', ''ah''])
        (tokenize_words text)))
   \<and> (\<forall>t \<in> set (tokenize_words text). t \<noteq> ''you know'' \<and> t \<noteq> ''i mean'' \<and> t \<noteq> ''sort of'')
   \<and> (length (tokenize_words text) = 100 \<and> fc = 3 \<longrightarrow>
        get_clarity_score text = (15, 3, 3, FillerFeedback 3 3))"
proof (intro conjI)
  show "tokenize_words text = [] \<longrightarrow> get_clarity_score text = (0, 0, 0, EmptyText)"
    by (simp add: get_clarity_score_def)
  show bands: "tokenize_words text \<noteq> [] \<longrightarrow>
        (\<exists>sc. get_clarity_score text = (sc, fc, rate, FillerFeedback fc rate)
           \<and> (0 \<le> rate \<and> rate \<le> 3 \<longrightarrow> sc = 15)
           \<and> (4 \<le> rate \<and> rate \<le> 6 \<longrightarrow> sc = 12)
           \<and> (7 \<le> rate \<and> rate \<le> 9 \<longrightarrow> sc = 9)
           \<and> (10 \<le> rate \<and> rate \<le> 12 \<longrightarrow> sc = 6)
           \<and> (13 \<le> rate \<longrightarrow> sc = 3))"
    using clarity_bands [OF _ fc rate] by blast
  have eq: "filter (\<lambda>t. t \<in> set FILLER_WORDS) (tokenize_words text)
      = filter (\<lambda>t. t \<in> set [''um'', ''uh'', ''like'', ''so'', ''actually'', ''basically'',
                       ''right'', ''well'', ''kinda'', ''okay'', ''ok'', ''hmm'', ''ah''])
        (tokenize_words text)"
    by (rule filter_cong [OF refl]) (rule filler_single_words, rule token_has_no_space)
  show "fc = int (length (filter
        (\<lambda>t. t \<in> set [''um'', ''uh'', ''like'', ''so'', ''actually'', ''basically'', ''right'',
                       ''well'', ''kinda'', ''okay'', ''ok'', ''hmm'', ''ah''])
        (tokenize_words text)))"
    unfolding fc eq ..
  show "\<forall>t \<in> set (tokenize_words text). t \<noteq> ''you know'' \<and> t \<noteq> ''i mean'' \<and> t \<noteq> ''sort of''"
    by (simp add: not_multi_word token_has_no_space)
  show "length (tokenize_words text) = 100 \<and> fc = 3 \<longrightarrow>
        get_clarity_score text = (15, 3, 3, FillerFeedback 3 3)"
  proof
    assume h: "length (tokenize_words text) = 100 \<and> fc = 3"
    then have r3: "rate = 3" using rate by simp
    from h have "tokenize_words text \<noteq> []" by auto
    with bands r3 h show "get_clarity_score text = (15, 3, 3, FillerFeedback 3 3)" by auto
  qed
qed

lemma hundred_words_tokens:
  "length (tokenize_words hundred_words) = 100"
  "int (length (filter (\<lambda>t. t \<in> set FILLER_WORDS) (tokenize_words hundred_words))) = 3"
  by code_simp+

lemma you_know_tokens:
  "tokenize_words ''you know, I mean, sort of''
     = [''you'', ''know'', ''i'', ''mean'', ''sort'', ''of'']"
  "int (length (filter (\<lambda>t. t \<in> set FILLER_WORDS)
      (tokenize_words ''you know, I mean, sort of''))) = 0"
  "tokenize_words '''' = []"
  by code_simp+

theorem clarity_score_spec_witness:
  "get_clarity_score hundred_words = (15, 3, 3, FillerFeedback 3 3)
   \<and> get_clarity_score '''' = (0, 0, 0, EmptyText)
   \<and> get_clarity_score ''you know, I mean, sort of'' = (15, 0, 0, FillerFeedback 0 0)"
proof -
  have "get_clarity_score hundred_words = (15, 3, 3, FillerFeedback 3 3)"
    using clarity_score_spec [of 3 hundred_words 3] hundred_words_tokens by simp
  moreover have "get_clarity_score '''' = (0, 0, 0, EmptyText)"
    using clarity_score_spec [of 0 "''''" 0] you_know_tokens(3) by simp
  moreover have "get_clarity_score ''you know, I mean, sort of'' = (15, 0, 0, FillerFeedback 0 0)"
    using clarity_score_spec [of 0 "''you know, I mean, sort of''" 0] you_know_tokens(1,2)
    by simp
  ultimately show ?thesis by blast
qed

section \<open>Keyword presence\<close>

lemma find_any_pattern_iff:
  "find_any_pattern s ps \<longleftrightarrow> (\<exists>pat \<in> set ps. re_search pat s)"
  by (induction ps) auto

lemma count_true: "length (filter (\<lambda>v. v) (map snd kvs)) = length (filter snd kvs)"
  by (induction kvs) auto

lemma presence_map:
  "map (\<lambda>(key, patterns). (key, find_any_pattern s patterns)) table
     = map (\<lambda>(key, patterns). (key, \<exists>pat \<in> set patterns. re_search pat s)) table"
  by (simp add: find_any_pattern_iff)

lemma all_present: "(\<forall>kv \<in> set kvs. snd kv) \<Longrightarrow> length (filter snd kvs) = length kvs"
  by simp

text \<open>
  Claim C5. In the result of \<open>get_keyword_presence_score\<close> a topic is marked
  present exactly when at least one of its patterns matches the lower-cased
  text; the score is 4 points for each present must-have topic, capped at 20,
  plus 2 points for each present good-to-have topic, capped at 10; there are five
  topics of each kind, and a transcript in which all ten are present scores
  exactly 30.
\<close>

theorem keyword_presence_score_spec:
  assumes "get_keyword_presence_score t = (total_score, mh, gh)"
  shows "mh = map (\<lambda>(key, patterns). (key, \<exists>pat \<in> set patterns. re_search pat (str_lower t)))
                MUST_HAVE_PATTERNS
     \<and> gh = map (\<lambda>(key, patterns). (key, \<exists>pat \<in> set patterns. re_search pat (str_lower t)))
                GOOD_TO_HAVE_PATTERNS
     \<and> total_score = min (int (length (filter snd mh)) * 4) 20
              + min (int (length (filter snd gh)) * 2) 10
     \<and> map fst mh = [''name'', ''age'', ''school_class'', ''family'', ''hobbies'']
     \<and> map fst gh = [''about_family'', ''origin_location'', ''ambition_goal'',
                      ''interesting_fact'', ''strengths_achievements'']
     \<and> ((\<forall>kv \<in> set mh. snd kv) \<and> (\<forall>kv \<in> set gh. snd kv) \<longrightarrow> total_score = 30)"
proof -
  from assms have mh: "mh = map (\<lambda>(key, patterns).
        (key, \<exists>pat \<in> set patterns. re_search pat (str_lower t))) MUST_HAVE_PATTERNS"
    and gh: "gh = map (\<lambda>(key, patterns).
        (key, \<exists>pat \<in> set patterns. re_search pat (str_lower t))) GOOD_TO_HAVE_PATTERNS"
    by (simp_all add: get_keyword_presence_score_def Let_def presence_map)
  from assms have total_score: "total_score = min (int (length (filter snd mh)) * 4) 20
              + min (int (length (filter snd gh)) * 2) 10"
    unfolding mh gh
    by (simp add: get_keyword_presence_score_def Let_def presence_map o_def
        MUST_HAVE_POINTS_def GOOD_TO_HAVE_POINTS_def)
  have keys: "map fst mh = [''name'', ''age'', ''school_class'', ''family'', ''hobbies'']"
    "map fst gh = [''about_family'', ''origin_location'', ''ambition_goal'',
                      ''interesting_fact'', ''strengths_achievements'']"
    unfolding mh gh by (simp_all add: MUST_HAVE_PATTERNS_def GOOD_TO_HAVE_PATTERNS_def)
  have len: "length mh = 5" "length gh = 5"
    using keys [THEN arg_cong, of length] by simp_all
  have full: "total_score = 30" if "\<forall>kv \<in> set mh. snd kv" "\<forall>kv \<in> set gh. snd kv"
    using total_score all_present [OF that(1)] all_present [OF that(2)] len by simp
  show ?thesis using mh gh total_score keys full by blast
qed

lemma score_all_topics:
  "get_keyword_presence_score all_topics =
     (30,
      [(''name'', True), (''age'', True), (''school_class'', True), (''family'', True),
       (''hobbies'', True)],
      [(''about_family'', True), (''origin_location'', True), (''ambition_goal'', True),
       (''interesting_fact'', True), (''strengths_achievements'', True)])"
  by code_simp

theorem keyword_presence_score_spec_witness:
  "get_keyword_presence_score all_topics =
     (30,
      [(''name'', True), (''age'', True), (''school_class'', True), (''family'', True),
       (''hobbies'', True)],
      [(''about_family'', True), (''origin_location'', True), (''ambition_goal'', True),
       (''interesting_fact'', True), (''strengths_achievements'', True)])
   \<and> [(''name'', True), (''age'', True), (''school_class'', True), (''family'', True),
       (''hobbies'', True)]
       = map (\<lambda>(key, patterns).
           (key, \<exists>pat \<in> set patterns. re_search pat (str_lower all_topics))) MUST_HAVE_PATTERNS
   \<and> (30 :: int) = min (int (length (filter snd
         [(''name'', True), (''age'', True), (''school_class'', True), (''family'', True),
          (''hobbies'', True)])) * 4) 20
       + min (int (length (filter snd
         [(''about_family'', True), (''origin_location'', True), (''ambition_goal'', True),
          (''interesting_fact'', True), (''strengths_achievements'', True)])) * 2) 10"
proof -
  note w = keyword_presence_score_spec [OF score_all_topics]
  from w have a: "[(''name'', True), (''age'', True), (''school_class'', True), (''family'', True),
       (''hobbies'', True)]
       = map (\<lambda>(key, patterns).
           (key, \<exists>pat \<in> set patterns. re_search pat (str_lower all_topics))) MUST_HAVE_PATTERNS"
    by (rule conjunct1)
  from w have b: "(30 :: int) = min (int (length (filter snd
         [(''name'', True), (''age'', True), (''school_class'', True), (''family'', True),
          (''hobbies'', True)])) * 4) 20
       + min (int (length (filter snd
         [(''about_family'', True), (''origin_location'', True), (''ambition_goal'', True),
          (''interesting_fact'', True), (''strengths_achievements'', True)])) * 2) 10"
    by (rule conjunct2 [THEN conjunct2, THEN conjunct1])
  from score_all_topics a b show ?thesis by (intro conjI)
qed

section \<open>Flow\<close>

lemma find_from_cases:
  "0 \<le> k \<Longrightarrow>
   (find_from p s k = - 1 \<and> (\<forall>i \<le> length s. \<not> prefix p (drop i s)))
   \<or> (\<exists>i \<le> length s. find_from p s k = k + int i \<and> prefix p (drop i s)
          \<and> (\<forall>j < i. \<not> prefix p (drop j s)))"
proof (induction s arbitrary: k)
  case Nil
  then show ?case by (cases "p = []") auto
next
  case (Cons c cs)
  show ?case
  proof (cases "prefix p (c # cs)")
    case True
    then have "find_from p (c # cs) k = k + int 0 \<and> prefix p (drop 0 (c # cs))
        \<and> (\<forall>j < 0. \<not> prefix p (drop j (c # cs)))"
      by simp
    then show ?thesis by blast
  next
    case False
    then have step: "find_from p (c # cs) k = find_from p cs (k + 1)" by simp
    from Cons.prems have "0 \<le> k + 1" by simp
    from Cons.IH [OF this] show ?thesis
    proof
      assume none: "find_from p cs (k + 1) = - 1 \<and> (\<forall>i \<le> length cs. \<not> prefix p (drop i cs))"
      have "\<not> prefix p (drop i (c # cs))" if "i \<le> length (c # cs)" for i
        using that none False by (cases i) auto
      with none step show ?thesis by simp
    next
      assume "\<exists>i \<le> length cs. find_from p cs (k + 1) = k + 1 + int i \<and> prefix p (drop i cs)
          \<and> (\<forall>j < i. \<not> prefix p (drop j cs))"
      then obtain i where i: "i \<le> length cs" "find_from p cs (k + 1) = k + 1 + int i"
        "prefix p (drop i cs)" "\<forall>j < i. \<not> prefix p (drop j cs)"
        by blast
      have "\<not> prefix p (drop j (c # cs))" if "j < Suc i" for j
        using that i(4) False by (cases j) auto
      with i step have "Suc i \<le> length (c # cs) \<and> find_from p (c # cs) k = k + int (Suc i)
          \<and> prefix p (drop (Suc i) (c # cs)) \<and> (\<forall>j < Suc i. \<not> prefix p (drop j (c # cs)))"
        by simp
      then show ?thesis by blast
    qed
  qed
qed

lemma str_find_cases:
  "(str_find s p = - 1 \<and> (\<forall>i \<le> length s. \<not> prefix p (drop i s)))
   \<or> (\<exists>i \<le> length s. str_find s p = int i \<and> prefix p (drop i s)
          \<and> (\<forall>j < i. \<not> prefix p (drop j s)))"
  using find_from_cases [of 0 p s] by (simp add: str_find_def)

lemma str_find_absent: "str_find s p = - 1 \<longleftrightarrow> (\<forall>i \<le> length s. \<not> prefix p (drop i s))"
  using str_find_cases [of s p] by auto

lemma str_find_first:
  assumes "str_find s p \<noteq> - 1"
  obtains i where "i \<le> length s" "str_find s p = int i" "prefix p (drop i s)"
    "\<forall>j < i. \<not> prefix p (drop j s)"
  using str_find_cases [of s p] assms by blast

lemma first_index_None:
  "first_index_of_any s ps = None \<longleftrightarrow> (\<forall>i. \<not> matches_at s ps i)"
proof -
  have "first_index_of_any s ps = None
      \<longleftrightarrow> filter (\<lambda>pos. pos \<noteq> - 1) (map (\<lambda>p. str_find s p) ps) = []"
    by (simp add: first_index_of_any_def Let_def split: list.splits)
  also have "\<dots> \<longleftrightarrow> (\<forall>p \<in> set ps. str_find s p = - 1)"
    by (simp add: filter_empty_conv)
  also have "\<dots> \<longleftrightarrow> (\<forall>i. \<not> matches_at s ps i)"
    unfolding str_find_absent matches_at_def by blast
  finally show ?thesis .
qed

lemma first_index_Min:
  assumes "first_index_of_any s ps = Some m"
  shows "m \<in> {x \<in> str_find s ` set ps. x \<noteq> - 1}"
    and "\<forall>x \<in> {x \<in> str_find s ` set ps. x \<noteq> - 1}. m \<le> x"
proof -
  define idxs where "idxs = filter (\<lambda>pos. pos \<noteq> - 1) (map (\<lambda>p. str_find s p) ps)"
  from assms obtain i0 rest where ne: "idxs = i0 # rest" and m: "m = fold min rest i0"
    by (auto simp: first_index_of_any_def Let_def idxs_def split: list.splits)
  have "m = Min (set idxs)" unfolding ne m Min.set_eq_fold ..
  moreover have "set idxs \<noteq> {}" "finite (set idxs)" using ne by simp_all
  ultimately have "m \<in> set idxs" "\<forall>x \<in> set idxs. m \<le> x"
    by (simp_all add: Min_in)
  moreover have "set idxs = {x \<in> str_find s ` set ps. x \<noteq> - 1}"
    by (auto simp: idxs_def)
  ultimately show "m \<in> {x \<in> str_find s ` set ps. x \<noteq> - 1}"
    and "\<forall>x \<in> {x \<in> str_find s ` set ps. x \<noteq> - 1}. m \<le> x"
    by simp_all
qed

lemma first_index_Some:
  assumes "first_index_of_any s ps = Some m"
  shows "0 \<le> m \<and> earliest_match s ps (nat m)"
proof -
  from first_index_Min(1) [OF assms] obtain p where p: "p \<in> set ps" "str_find s p = m" "m \<noteq> - 1"
    by auto
  then have "str_find s p \<noteq> - 1" by simp
  then obtain i where i: "i \<le> length s" "str_find s p = int i" "prefix p (drop i s)"
    by (rule str_find_first)
  with p have mi: "m = int i" by simp
  have here: "matches_at s ps i" using i p(1) by (auto simp: matches_at_def)
  have least: "\<not> matches_at s ps j" if "j < i" for j
  proof
    assume "matches_at s ps j"
    then obtain q where q: "q \<in> set ps" "j \<le> length s" "prefix q (drop j s)"
      by (auto simp: matches_at_def)
    then have "str_find s q \<noteq> - 1" unfolding str_find_absent by blast
    then obtain i' where i': "str_find s q = int i'" "\<forall>j' < i'. \<not> prefix q (drop j' s)"
      by (rule str_find_first)
    with q(3) have "i' \<le> j" by (meson not_le_imp_less)
    moreover have "m \<le> str_find s q"
      using first_index_Min(2) [OF assms] q(1) \<open>str_find s q \<noteq> - 1\<close> by auto
    ultimately show False using mi i'(1) that by simp
  qed
  show ?thesis using mi here least by (simp add: earliest_match_def)
qed

lemma earliest_match_unique:
  "earliest_match s ps i \<Longrightarrow> earliest_match s ps j \<Longrightarrow> i = j"
  unfolding earliest_match_def by (meson linorder_neqE_nat)

lemma first_index_of_earliest:
  assumes "earliest_match s ps i"
  shows "first_index_of_any s ps = Some (int i)"
proof (cases "first_index_of_any s ps")
  case None
  with assms show ?thesis by (simp add: first_index_None earliest_match_def)
next
  case (Some m)
  from first_index_Some [OF Some] have "0 \<le> m" "earliest_match s ps (nat m)" by simp_all
  with assms have "nat m = i" by (blast intro: earliest_match_unique)
  with \<open>0 \<le> m\<close> Some show ?thesis by simp
qed

text \<open>
  Claim C6. With \<open>tl'\<close> the lower-cased text: if any of the four phrase groups
  (salutation, basic details, additional details, closing) occurs nowhere in
  \<open>tl'\<close>, \<open>get_flow_score\<close> returns 0; otherwise, with \<open>s\<close>, \<open>b\<close>, \<open>a\<close>, \<open>c\<close> the
  earliest positions at which a phrase of each group occurs, it returns 5 if
  \<open>s \<le> b \<le> a \<le> c\<close> (equality allowed) and 0 if not. Its score is always 0 or 5.
\<close>

theorem flow_score_spec:
  assumes "tl' = str_lower t"
  shows "((\<forall>i. \<not> matches_at tl' (NORMAL_SALUTATIONS @ GOOD_SALUTATIONS) i)
          \<or> (\<forall>i. \<not> matches_at tl' BASIC_PHRASES i)
          \<or> (\<forall>i. \<not> matches_at tl' ADDITIONAL_PHRASES i)
          \<or> (\<forall>i. \<not> matches_at tl' CLOSING_PHRASES i)
          \<longrightarrow> get_flow_score t = (0, SectionsMissing))
     \<and> (earliest_match tl' (NORMAL_SALUTATIONS @ GOOD_SALUTATIONS) s
          \<and> earliest_match tl' BASIC_PHRASES b
          \<and> earliest_match tl' ADDITIONAL_PHRASES a
          \<and> earliest_match tl' CLOSING_PHRASES c
          \<longrightarrow> get_flow_score t
               = (if s \<le> b \<and> b \<le> a \<and> a \<le> c then (5, OrderFollowed)
                  else (0, OrderNotFollowed)))
     \<and> fst (get_flow_score t) \<in> {0, 5}"
proof (intro conjI impI)
  assume "(\<forall>i. \<not> matches_at tl' (NORMAL_SALUTATIONS @ GOOD_SALUTATIONS) i)
          \<or> (\<forall>i. \<not> matches_at tl' BASIC_PHRASES i)
          \<or> (\<forall>i. \<not> matches_at tl' ADDITIONAL_PHRASES i)
          \<or> (\<forall>i. \<not> matches_at tl' CLOSING_PHRASES i)"
  then have "first_index_of_any tl' (NORMAL_SALUTATIONS @ GOOD_SALUTATIONS) = None
      \<or> first_index_of_any tl' BASIC_PHRASES = None
      \<or> first_index_of_any tl' ADDITIONAL_PHRASES = None
      \<or> first_index_of_any tl' CLOSING_PHRASES = None"
    by (simp only: first_index_None)
  then show "get_flow_score t = (0, SectionsMissing)"
    unfolding get_flow_score_def Let_def assms [symmetric]
    by (auto split: option.splits)
next
  assume "earliest_match tl' (NORMAL_SALUTATIONS @ GOOD_SALUTATIONS) s
          \<and> earliest_match tl' BASIC_PHRASES b
          \<and> earliest_match tl' ADDITIONAL_PHRASES a
          \<and> earliest_match tl' CLOSING_PHRASES c"
  then have "first_index_of_any tl' (NORMAL_SALUTATIONS @ GOOD_SALUTATIONS) = Some (int s)"
    "first_index_of_any tl' BASIC_PHRASES = Some (int b)"
    "first_index_of_any tl' ADDITIONAL_PHRASES = Some (int a)"
    "first_index_of_any tl' CLOSING_PHRASES = Some (int c)"
    by (simp_all add: first_index_of_earliest)
  then show "get_flow_score t
               = (if s \<le> b \<and> b \<le> a \<and> a \<le> c then (5, OrderFollowed)
                  else (0, OrderNotFollowed))"
    unfolding get_flow_score_def Let_def assms [symmetric] by simp
next
  show "fst (get_flow_score t) \<in> {0, 5}"
    by (simp add: get_flow_score_def Let_def split: option.splits)
qed

lemma in_order_positions:
  "first_index_of_any (str_lower in_order) (NORMAL_SALUTATIONS @ GOOD_SALUTATIONS) = Some 0"
  "first_index_of_any (str_lower in_order) BASIC_PHRASES = Some 7"
  "first_index_of_any (str_lower in_order) ADDITIONAL_PHRASES = Some 26"
  "first_index_of_any (str_lower in_order) CLOSING_PHRASES = Some 42"
  by code_simp+

lemma out_of_order_positions:
  "first_index_of_any (str_lower out_of_order) (NORMAL_SALUTATIONS @ GOOD_SALUTATIONS) = Some 19"
  "first_index_of_any (str_lower out_of_order) BASIC_PHRASES = Some 26"
  "first_index_of_any (str_lower out_of_order) ADDITIONAL_PHRASES = Some 3"
  "first_index_of_any (str_lower out_of_order) CLOSING_PHRASES = Some 36"
  by code_simp+

lemma hello_has_no_basic: "first_index_of_any (str_lower ''hello'') BASIC_PHRASES = None"
  by code_simp

theorem flow_score_spec_witness:
  "get_flow_score in_order = (5, OrderFollowed)
   \<and> get_flow_score out_of_order = (0, OrderNotFollowed)
   \<and> get_flow_score ''hello'' = (0, SectionsMissing)"
proof -
  have "earliest_match (str_lower in_order) (NORMAL_SALUTATIONS @ GOOD_SALUTATIONS) 0"
    "earliest_match (str_lower in_order) BASIC_PHRASES 7"
    "earliest_match (str_lower in_order) ADDITIONAL_PHRASES 26"
    "earliest_match (str_lower in_order) CLOSING_PHRASES 42"
    using in_order_positions [THEN first_index_Some] by simp_all
  then have "get_flow_score in_order = (5, OrderFollowed)"
    using flow_score_spec [of "str_lower in_order" in_order 0 7 26 42] by simp
  moreover have "earliest_match (str_lower out_of_order) (NORMAL_SALUTATIONS @ GOOD_SALUTATIONS) 19"
    "earliest_match (str_lower out_of_order) BASIC_PHRASES 26"
    "earliest_match (str_lower out_of_order) ADDITIONAL_PHRASES 3"
    "earliest_match (str_lower out_of_order) CLOSING_PHRASES 36"
    using out_of_order_positions [THEN first_index_Some] by simp_all
  then have "get_flow_score out_of_order = (0, OrderNotFollowed)"
    using flow_score_spec [of "str_lower out_of_order" out_of_order 19 26 3 36] by simp
  moreover have "\<forall>i. \<not> matches_at (str_lower ''hello'') BASIC_PHRASES i"
    by (rule first_index_None [THEN iffD1, OF hello_has_no_basic])
  then have "get_flow_score ''hello'' = (0, SectionsMissing)"
    using flow_score_spec [of "str_lower ''hello''" "''hello''" 0 0 0 0] by blast
  ultimately show ?thesis by blast
qed

end
